theory Spec2Isabelle
  imports Complex_Main "HOL-Library.Multiset" "HOL-Library.Option_ord"
begin

section \<open>Strings and numbers of the runtime\<close>

text \<open>
  A Python \<open>str\<close> is a sequence of Unicode code points, and \<open>len\<close>, padding and
  \<open>strip\<close> count code points. A string is therefore a list of code points; the ASCII
  part of a literal is written \<open>ascii ''...''\<close>, every other character by its number.

  The numbers of the upstream JSON (prices, percent changes, market caps) and the readings
  of \<open>time.time()\<close> are Python floats or ints. A number of the model is the exact value
  of such a float or int, a rational. Comparisons are those of the source. The quotient
  \<open>x / y\<close> of the source is the binary64 value nearest to the exact quotient
  (\<open>to_double\<close> below), for floats and for ints alike. The difference of two clock readings
  is taken exactly. Infinities, NaN, and ints too large to convert to a float exactly are not
  values of the model.
\<close>

type_synonym ustr = "nat list"

definition ascii :: "string \<Rightarrow> ustr" where
  "ascii s = map of_char s"

definition isspace :: "nat \<Rightarrow> bool" where
  \<comment> \<open>\<open>str.isspace\<close> of one code point: the white space that \<open>str.strip()\<close> removes.\<close>
  "isspace c \<longleftrightarrow>
     (9 \<le> c \<and> c \<le> 13) \<or> (28 \<le> c \<and> c \<le> 32) \<or> c = 133 \<or> c = 160 \<or> c = 5760 \<or>
     (8192 \<le> c \<and> c \<le> 8202) \<or> c = 8232 \<or> c = 8233 \<or> c = 8239 \<or> c = 8287 \<or> c = 12288"

definition strip :: "ustr \<Rightarrow> ustr" where
  \<comment> \<open>\<open>s.strip()\<close>\<close>
  "strip s = rev (dropWhile isspace (rev (dropWhile isspace s)))"

fun str_join :: "ustr \<Rightarrow> ustr list \<Rightarrow> ustr" where
  \<comment> \<open>\<open>sep.join(parts)\<close>\<close>
  "str_join sep [] = []"
| "str_join sep [x] = x"
| "str_join sep (x # y # ys) = x @ sep @ str_join sep (y # ys)"

definition ljust :: "nat \<Rightarrow> ustr \<Rightarrow> ustr" where
  \<comment> \<open>format spec \<open><w\<close>: pad with spaces on the right up to width \<open>w\<close>, never truncate\<close>
  "ljust w s = s @ replicate (w - length s) 32"

definition rjust :: "nat \<Rightarrow> ustr \<Rightarrow> ustr" where
  \<comment> \<open>\<open>s.rjust(w)\<close> and format spec \<open>>w\<close>\<close>
  "rjust w s = replicate (w - length s) 32 @ s"

fun digits :: "nat \<Rightarrow> ustr" where
  "digits n = (if n < 10 then [48 + n] else digits (n div 10) @ [48 + n mod 10])"

declare digits.simps [simp del]

fun commas_rev :: "ustr \<Rightarrow> ustr" where
  \<comment> \<open>on the reversed digits: a comma after every third digit that has a successor\<close>
  "commas_rev (a # b # c # d # ds) = a # b # c # 44 # commas_rev (d # ds)"
| "commas_rev ds = ds"

definition group3 :: "ustr \<Rightarrow> ustr" where
  "group3 ds = rev (commas_rev (rev ds))"

definition round_half_even :: "rat \<Rightarrow> int" where
  "round_half_even y =
     (let f = \<lfloor>y\<rfloor>; d = y - of_int f
      in if d < 1 / 2 then f else if 1 / 2 < d then f + 1 else if even f then f else f + 1)"

definition fmt_2f :: "bool \<Rightarrow> rat \<Rightarrow> ustr" where
  \<comment> \<open>format specs \<open>.2f\<close> (\<open>grouped = False\<close>) and \<open>,.2f\<close> (\<open>grouped = True\<close>): the value
      rounded to hundredths, ties to even, with a sign only for negative values\<close>
  "fmt_2f grouped x =
     (let q = nat (round_half_even (\<bar>x\<bar> * 100));
          ip = digits (q div 100);
          fp = [48 + (q mod 100) div 10, 48 + q mod 10]
      in (if x < 0 then ascii ''-'' else []) @ (if grouped then group3 ip else ip) @ ascii ''.'' @ fp)"

definition or_else :: "rat option \<Rightarrow> rat \<Rightarrow> rat" where
  \<comment> \<open>\<open>v or d\<close> for \<open>v\<close> a number or \<open>None\<close>: \<open>None\<close> and zero are both falsy\<close>
  "or_else v d = (case v of None \<Rightarrow> d | Some x \<Rightarrow> if x = 0 then d else x)"

definition sorted_reverse :: "('a \<Rightarrow> rat) \<Rightarrow> 'a list \<Rightarrow> 'a list" where
  \<comment> \<open>\<open>sorted(xs, key=key, reverse=True)\<close>: the list is reversed, sorted stably in
      ascending order and reversed again, so equal keys keep their original order\<close>
  "sorted_reverse key xs = rev (sort_key key (rev xs))"


section \<open>Binary floating point\<close>

fun bit_length :: "nat \<Rightarrow> nat" where
  \<comment> \<open>\<open>int.bit_length\<close>\<close>
  "bit_length n = (if n = 0 then 0 else Suc (bit_length (n div 2)))"

declare bit_length.simps [simp del]

definition exponent :: "rat \<Rightarrow> int" where
  \<comment> \<open>for \<open>x > 0\<close>, the \<open>k\<close> with \<open>2^k \<le> x < 2^(k+1)\<close>\<close>
  "exponent x =
     (if 1 \<le> x then int (bit_length (nat \<lfloor>x\<rfloor>)) - 1
      else - int (bit_length (nat (\<lceil>1 / x\<rceil> - 1))))"

definition pow2 :: "int \<Rightarrow> rat" where
  "pow2 k = (if 0 \<le> k then 2 ^ nat k else 1 / 2 ^ nat (- k))"

definition to_double :: "rat \<Rightarrow> rat" where
  \<comment> \<open>the binary64 value nearest to \<open>x\<close>, ties to even: 53 significant bits, the spacing
      of the subnormal range below \<open>2^-1022\<close>; results beyond the largest float are not
      modelled\<close>
  "to_double x =
     (if x = 0 then 0
      else (let u = pow2 (max (exponent \<bar>x\<bar>) (- 1022) - 52)
            in of_int (round_half_even (x / u)) * u))"


section \<open>Data model\<close>

text \<open>
  One element of the upstream response, with the four fields the bot reads. The response is
  typed as the upstream contract gives it: \<open>symbol\<close> a string, \<open>current_price\<close> a number,
  the 24-hour percent change and the market cap a number, \<open>null\<close> or missing
  (\<open>c.get(...)\<close> gives \<open>None\<close> in both cases).
\<close>

record coin =
  symbol :: ustr
  current_price :: rat
  price_change_percentage_24h :: "rat option"
  market_cap :: "rat option"

text \<open>
  What \<open>r.json()\<close> returns: the list of coins, or a JSON value that has no length
  (\<open>null\<close>, a boolean, a number), on which \<open>len\<close> raises and over which nothing can
  iterate. A body that is a JSON string or object, and list elements that are not coin
  objects, are not modelled. A stored \<open>null\<close> is Python's \<open>None\<close>: \<open>get_cached\<close>
  returns it as \<open>Some (Unsized JNull)\<close>, and \<open>truthy\<close> treats it like a miss, as
  \<open>if cached:\<close> does.
\<close>

datatype unsized = JNull | JBool bool | JInt int | JFloat rat

datatype payload = Rows "coin list" | Unsized unsized

fun type_name :: "unsized \<Rightarrow> ustr" where
  "type_name JNull = ascii ''NoneType''"
| "type_name (JBool b) = ascii ''bool''"
| "type_name (JInt i) = ascii ''int''"
| "type_name (JFloat x) = ascii ''float''"

definition len_error :: "unsized \<Rightarrow> ustr" where
  \<comment> \<open>message of the \<open>TypeError\<close> that \<open>len(data)\<close> raises\<close>
  "len_error u = ascii ''object of type '' @ [39] @ type_name u @ [39] @ ascii '' has no len()''"

definition iter_error :: "unsized \<Rightarrow> ustr" where
  \<comment> \<open>message of the \<open>TypeError\<close> that \<open>for c in rows\<close> and \<open>sorted(rows, ...)\<close> raise\<close>
  "iter_error u = [39] @ type_name u @ [39] @ ascii '' object is not iterable''"

text \<open>The two module-level dictionaries \<open>cache\<close> and \<open>cache_time\<close>.\<close>

record cache_state =
  cache :: "ustr \<rightharpoonup> payload"
  cache_time :: "ustr \<rightharpoonup> rat"

definition COINS :: "(ustr \<times> ustr) list" where
  "COINS = [(ascii ''bitcoin'', ascii ''BTC''), (ascii ''ethereum'', ascii ''ETH''),
            (ascii ''binancecoin'', ascii ''BNB''), (ascii ''solana'', ascii ''SOL''),
            (ascii ''cardano'', ascii ''ADA'')]"


section \<open>Caching\<close>

definition fetched_at :: "cache_state \<Rightarrow> ustr \<Rightarrow> rat" where
  \<comment> \<open>\<open>cache_time.get(key, 0)\<close>\<close>
  "fetched_at s key = (case cache_time s key of None \<Rightarrow> 0 | Some t \<Rightarrow> t)"

definition get_cached :: "rat \<Rightarrow> cache_state \<Rightarrow> ustr \<Rightarrow> rat \<Rightarrow> payload option" where
  \<comment> \<open>\<open>now\<close> is the reading of \<open>time.time()\<close>; the result \<open>None\<close> is the
      \<open>return None\<close> of the source\<close>
  "get_cached now s key ttl =
     (case cache s key of
        Some v \<Rightarrow> if now - fetched_at s key < ttl then Some v else None
      | None \<Rightarrow> None)"

definition set_cache :: "rat \<Rightarrow> cache_state \<Rightarrow> ustr \<Rightarrow> payload \<Rightarrow> cache_state" where
  "set_cache now s key v = s\<lparr>cache := (cache s)(key \<mapsto> v), cache_time := (cache_time s)(key \<mapsto> now)\<rparr>"


section \<open>Formatting helpers\<close>

definition money :: "rat option \<Rightarrow> ustr" where
  "money n =
     (case n of
        None \<Rightarrow> [8212]
      | Some n \<Rightarrow>
          if n \<ge> 1000000000
          then ascii ''$'' @ fmt_2f False (to_double (n / 1000000000)) @ ascii ''B''
          else if n \<ge> 1000000
          then ascii ''$'' @ fmt_2f False (to_double (n / 1000000)) @ ascii ''M''
          else if n \<ge> 1000
          then ascii ''$'' @ fmt_2f False (to_double (n / 1000)) @ ascii ''K''
          else ascii ''$'' @ fmt_2f True n)"

definition arrow :: "rat option \<Rightarrow> ustr" where
  "arrow p =
     (case p of
        None \<Rightarrow> [8212]
      | Some p \<Rightarrow> (if p \<ge> 0 then [128314] else [128315]) @ fmt_2f False \<bar>p\<bar> @ ascii ''%'')"


section \<open>What one handler invocation gets from outside\<close>

text \<open>
  The HTTP library, the clock, the string runtime and the chat transport are not part of the
  program. Their answers during one invocation of the handler are collected in an
  environment.

  The outcome of the \<open>try\<close> body of \<open>fetch_markets\<close> (\<open>requests.get\<close>,
  \<open>raise_for_status\<close>, \<open>r.json()\<close>) is classified the way the \<open>except\<close> clauses
  classify it: \<open>requests.Timeout\<close>; \<open>requests.HTTPError\<close> with the status code of its
  response; any other exception, which includes a connection failure and a body that
  \<open>r.json()\<close> cannot decode, with its \<open>str(e)\<close>; or the decoded body.
\<close>

datatype outcome =
    Timeout
  | HTTPError int
  | Unexpected ustr
  | Json payload

datatype error =
    Exception ustr    \<comment> \<open>\<open>raise Exception(msg)\<close>\<close>
  | Reraised ustr     \<comment> \<open>bare \<open>raise\<close> of the exception that was caught, with its \<open>str(e)\<close>\<close>
  | TypeError ustr    \<comment> \<open>raised by the runtime inside the handler, with its \<open>str(e)\<close>\<close>

fun str :: "error \<Rightarrow> ustr" where
  "str (Exception m) = m"
| "str (Reraised m) = m"
| "str (TypeError m) = m"

datatype button =
    CallbackButton ustr ustr    \<comment> \<open>label, \<open>callback_data\<close>\<close>
  | UrlButton ustr ustr         \<comment> \<open>label, \<open>url\<close>\<close>

type_synonym keyboard = "button list list"

datatype parse_mode = Markdown

datatype call =
    Answer                                        \<comment> \<open>\<open>q.answer()\<close>\<close>
  | Edit ustr "parse_mode option" keyboard        \<comment> \<open>\<open>q.edit_message_text(text, parse_mode, reply_markup)\<close>\<close>
  | Alert ustr                                    \<comment> \<open>\<open>q.answer(text, show_alert=True)\<close>\<close>

record env =
  clock_get :: rat                             \<comment> \<open>\<open>time.time()\<close> as read in \<open>get_cached\<close>\<close>
  clock_set :: rat                             \<comment> \<open>\<open>time.time()\<close> as read in \<open>set_cache\<close>\<close>
  upstream :: "ustr \<Rightarrow> outcome"                 \<comment> \<open>outcome of the request, given its \<open>ids\<close> parameter\<close>
  str_upper :: "ustr \<Rightarrow> ustr"                  \<comment> \<open>\<open>str.upper\<close>, the runtime's Unicode case mapping\<close>
  transport :: "nat \<Rightarrow> call \<Rightarrow> ustr option"    \<comment> \<open>the \<open>n\<close>-th transport call of the invocation:
                                                   \<open>None\<close> if it returns, \<open>Some m\<close> if it raises an
                                                   exception with \<open>str(e) = m\<close>\<close>


section \<open>Fetching with the cache\<close>

fun truthy :: "payload option \<Rightarrow> bool" where
  \<comment> \<open>\<open>if cached:\<close>: \<open>None\<close>, the empty list, \<open>False\<close> and zero are falsy\<close>
  "truthy None = False"
| "truthy (Some (Rows rows)) = (rows \<noteq> [])"
| "truthy (Some (Unsized JNull)) = False"
| "truthy (Some (Unsized (JBool b))) = b"
| "truthy (Some (Unsized (JInt i))) = (i \<noteq> 0)"
| "truthy (Some (Unsized (JFloat x))) = (x \<noteq> 0)"

definition markets :: ustr where
  "markets = ascii ''markets''"

text \<open>
  The result is what \<open>fetch_markets\<close> returns or raises, the cache afterwards, and the
  requests sent upstream (each by its \<open>ids\<close> parameter). Of the logging only
  \<open>len(data)\<close> is kept: it is evaluated after \<open>set_cache\<close>, inside the \<open>try\<close>, and
  its \<open>TypeError\<close> reaches the clause \<open>except Exception\<close>, which raises it again.
\<close>

definition fetch_markets ::
  "env \<Rightarrow> cache_state \<Rightarrow> ustr list \<Rightarrow> (error + payload) \<times> cache_state \<times> ustr list" where
  "fetch_markets e s ids =
     (let cached = get_cached (clock_get e) s markets 60
      in if truthy cached then (Inr (the cached), s, [])
         else
           (let req = str_join (ascii '','') ids
            in case upstream e req of
                 Json data \<Rightarrow>
                   (let s' = set_cache (clock_set e) s markets data
                    in case data of
                         Rows rows \<Rightarrow> (Inr data, s', [req])
                       | Unsized u \<Rightarrow> (Inl (Reraised (len_error u)), s', [req]))
               | Timeout \<Rightarrow> (Inl (Exception (ascii ''API timeout - try again in a moment'')), s, [req])
               | HTTPError status_code \<Rightarrow>
                   if status_code = 429
                   then (Inl (Exception (ascii ''Rate limited - wait a minute'')), s, [req])
                   else (Inl (Exception (ascii ''API error'')), s, [req])
               | Unexpected m \<Rightarrow> (Inl (Reraised m), s, [req])))"


section \<open>Views\<close>

definition table_row :: "(ustr \<Rightarrow> ustr) \<Rightarrow> coin \<Rightarrow> ustr" where
  "table_row up c =
     (let sym = ljust 4 (up (symbol c));
          price = ascii ''$'' @ rjust 10 (fmt_2f True (current_price c));
          ch24 = arrow (price_change_percentage_24h c);
          mcap = rjust 8 (money (market_cap c))
      in [96] @ sym @ ascii '' '' @ price @ ascii ''  '' @ rjust 8 ch24 @ ascii ''  '' @ mcap @ [96])"

definition table :: "(ustr \<Rightarrow> ustr) \<Rightarrow> coin list \<Rightarrow> ustr" where
  "table up rows =
     str_join [10] (([96] @ ascii ''COIN   PRICE        24h     MCAP'' @ [96]) # map (table_row up) rows)"

definition iterate :: "payload \<Rightarrow> error + coin list" where
  \<comment> \<open>what \<open>for c in rows\<close> and \<open>sorted(rows, ...)\<close> go through\<close>
  "iterate data = (case data of Rows rows \<Rightarrow> Inr rows | Unsized u \<Rightarrow> Inl (TypeError (iter_error u)))"

definition mc_rows :: "coin list \<Rightarrow> coin list" where
  "mc_rows rows = sorted_reverse (\<lambda>x. or_else (market_cap x) 0) rows"

definition mc_line :: "(ustr \<Rightarrow> ustr) \<Rightarrow> coin \<Rightarrow> ustr" where
  "mc_line up r = [96] @ ljust 4 (up (symbol r)) @ ascii ''   '' @ money (market_cap r) @ [96]"

definition gains_rows :: "coin list \<Rightarrow> coin list" where
  "gains_rows rows = sorted_reverse (\<lambda>x. or_else (price_change_percentage_24h x) (- 999)) rows"

definition gains_line :: "(ustr \<Rightarrow> ustr) \<Rightarrow> coin \<Rightarrow> ustr" where
  "gains_line up r =
     [96] @ ljust 4 (up (symbol r)) @ ascii ''   '' @ arrow (price_change_percentage_24h r) @ [96]"


section \<open>Keyboards\<close>

definition main_kb :: keyboard where
  "main_kb =
     [[CallbackButton ([128185] @ ascii '' Price'') (ascii ''price''),
       CallbackButton (ascii ''Refresh'') (ascii ''refresh'')],
      [CallbackButton ([128176] @ ascii '' MC'') (ascii ''mc''),
       CallbackButton ([128200] @ ascii '' Gains'') (ascii ''gains'')],
      [CallbackButton ([128202] @ ascii '' Charts'') (ascii ''charts''),
       CallbackButton ([8505, 65039] @ ascii '' Help'') (ascii ''helpbtn'')]]"

definition charts_kb :: keyboard where
  "charts_kb =
     [[UrlButton (ascii ''BTC chart'') (ascii ''https://www.tradingview.com/symbols/BTCUSD/'')],
      [UrlButton (ascii ''ETH chart'') (ascii ''https://www.tradingview.com/symbols/ETHUSD/'')],
      [CallbackButton ([11013] @ ascii '' Back'') (ascii ''back'')]]"


section \<open>Button handler\<close>

definition help_text :: ustr where
  \<comment> \<open>the \<open>help_text\<close> of the \<open>helpbtn\<close> branch\<close>
  "help_text =
     [129302] @ ascii '' *Crypto Price Bot*'' @ [10, 10] @
     ascii ''Live crypto prices from CoinGecko.'' @ [10, 10] @
     ascii ''*Features:*'' @ [10] @
     ascii ''- '' @ [128185] @ ascii '' Price: Current prices'' @ [10] @
     ascii ''- '' @ [128176] @ ascii '' MC: Market capitalizations'' @ [10] @
     ascii ''- '' @ [128200] @ ascii '' Gains: 24h movers'' @ [10] @
     ascii ''- '' @ [128202] @ ascii '' Charts: TradingView charts''"

text \<open>
  The body of the \<open>try\<close> block of \<open>on_button\<close> up to the \<open>edit_message_text\<close> call each
  branch ends with: the exception raised by \<open>fetch_markets\<close> or by rendering, or the edit to
  send; the cache afterwards; the upstream requests made.
\<close>

definition on_button_try ::
  "env \<Rightarrow> cache_state \<Rightarrow> ustr \<Rightarrow> (error + call) \<times> cache_state \<times> ustr list" where
  "on_button_try e s data =
     (if data = ascii ''price'' \<or> data = ascii ''refresh'' then
        (case fetch_markets e s (map fst COINS) of
           (Inl err, s', reqs) \<Rightarrow> (Inl err, s', reqs)
         | (Inr data, s', reqs) \<Rightarrow>
             (case iterate data of
                Inl err \<Rightarrow> (Inl err, s', reqs)
              | Inr rows \<Rightarrow>
                  (Inr (Edit ([128176] @ ascii '' *Live Prices (USD)*'' @ [10, 10] @
                              table (str_upper e) rows)
                             (Some Markdown) main_kb), s', reqs)))
      else if data = ascii ''mc'' then
        (case fetch_markets e s (map fst COINS) of
           (Inl err, s', reqs) \<Rightarrow> (Inl err, s', reqs)
         | (Inr data, s', reqs) \<Rightarrow>
             (case iterate data of
                Inl err \<Rightarrow> (Inl err, s', reqs)
              | Inr rows \<Rightarrow>
                  (Inr (Edit ([129409] @ ascii '' *Market Caps*'' @ [10, 10] @
                              str_join [10] (map (mc_line (str_upper e)) (mc_rows rows)))
                             (Some Markdown) main_kb), s', reqs)))
      else if data = ascii ''gains'' then
        (case fetch_markets e s (map fst COINS) of
           (Inl err, s', reqs) \<Rightarrow> (Inl err, s', reqs)
         | (Inr data, s', reqs) \<Rightarrow>
             (case iterate data of
                Inl err \<Rightarrow> (Inl err, s', reqs)
              | Inr rows \<Rightarrow>
                  (Inr (Edit ([128200] @ ascii '' *24h Top Movers*'' @ [10, 10] @
                              str_join [10] (map (gains_line (str_upper e)) (gains_rows rows)))
                             (Some Markdown) main_kb), s', reqs)))
      else if data = ascii ''charts'' then
        (Inr (Edit ([128202] @ ascii '' Choose a chart:'') None charts_kb), s, [])
      else if data = ascii ''back'' then
        (Inr (Edit ([129302] @ ascii '' Crypto Price Bot:'') None main_kb), s, [])
      else if data = ascii ''helpbtn'' then
        (Inr (Edit help_text (Some Markdown) main_kb), s, [])
      else
        (Inr (Edit (ascii ''Unknown command: '' @ data) None main_kb), s, []))"

text \<open>
  What one invocation of the handler did: the transport calls it made, in order; the
  exception that left the handler, if any; the cache afterwards; the upstream requests.
\<close>

record handled =
  calls :: "call list"
  raised :: "ustr option"
  store :: cache_state
  requests :: "ustr list"

definition on_error :: "env \<Rightarrow> call list \<Rightarrow> ustr \<Rightarrow> cache_state \<Rightarrow> ustr list \<Rightarrow> handled" where
  \<comment> \<open>the \<open>except Exception as e\<close> clause of \<open>on_button\<close>, entered after the calls \<open>done\<close>
      with \<open>str(e) = m\<close>\<close>
  "on_error e done m s reqs =
     (let error_msg = [9888, 65039] @ ascii '' '' @ m;
          ed = Edit error_msg None main_kb
      in case transport e (length done) ed of
           None \<Rightarrow> \<lparr>calls = done @ [ed], raised = None, store = s, requests = reqs\<rparr>
         | Some _ \<Rightarrow>
             \<lparr>calls = done @ [ed, Alert error_msg],
              raised = transport e (length done + 1) (Alert error_msg),
              store = s, requests = reqs\<rparr>)"

definition data_of :: "ustr option \<Rightarrow> ustr" where
  \<comment> \<open>\<open>(q.data or "").strip()\<close>: \<open>None\<close> and the empty string both give the empty string\<close>
  "data_of qdata = strip (case qdata of None \<Rightarrow> [] | Some d \<Rightarrow> d)"

definition on_button :: "env \<Rightarrow> cache_state \<Rightarrow> ustr option \<Rightarrow> handled" where
  \<comment> \<open>the last argument is \<open>q.data\<close>\<close>
  "on_button e s qdata =
     (case transport e 0 Answer of
        Some m \<Rightarrow> \<lparr>calls = [Answer], raised = Some m, store = s, requests = []\<rparr>
      | None \<Rightarrow>
          (let data = data_of qdata
           in case on_button_try e s data of
                (Inl err, s', reqs) \<Rightarrow> on_error e [Answer] (str err) s' reqs
              | (Inr ed, s', reqs) \<Rightarrow>
                  (case transport e 1 ed of
                     None \<Rightarrow> \<lparr>calls = [Answer, ed], raised = None, store = s', requests = reqs\<rparr>
                   | Some m \<Rightarrow> on_error e [Answer, ed] m s' reqs)))"


section \<open>Sample inputs\<close>

definition ascii_upper :: "ustr \<Rightarrow> ustr" where
  \<comment> \<open>\<open>str.upper\<close> on strings of ASCII characters\<close>
  "ascii_upper s = map (\<lambda>c. if 97 \<le> c \<and> c \<le> 122 then c - 32 else c) s"

definition env_of :: "rat \<Rightarrow> rat \<Rightarrow> outcome \<Rightarrow> env" where
  \<comment> \<open>an invocation whose clock reads \<open>t\<close> and \<open>t'\<close>, whose upstream request ends in \<open>out\<close>
      and whose transport calls all return\<close>
  "env_of t t' out =
     \<lparr>clock_get = t, clock_set = t', upstream = (\<lambda>_. out), str_upper = ascii_upper,
      transport = (\<lambda>_ _. None)\<rparr>"

definition no_cache :: cache_state where
  \<comment> \<open>the two dictionaries at start-up\<close>
  "no_cache = \<lparr>cache = Map.empty, cache_time = Map.empty\<rparr>"

definition quote :: "string \<Rightarrow> rat option \<Rightarrow> coin" where
  "quote name p =
     \<lparr>symbol = ascii name, current_price = 1, price_change_percentage_24h = p, market_cap = None\<rparr>"

definition sample_rows :: "coin list" where
  "sample_rows = [quote ''eth'' None, quote ''btc'' (Some 0), quote ''ada'' (Some (- 1000))]"

definition sample_movers :: "coin list" where
  "sample_movers =
     [quote ''btc'' (Some (3 / 2)), quote ''eth'' None, quote ''sol'' (Some (- 2)), quote ''ada'' (Some 7)]"

definition zero_and_loss :: "coin list" where
  "zero_and_loss = [quote ''btc'' (Some 0), quote ''eth'' (Some (- 5))]"

definition absent_and_zero :: "coin list" where
  "absent_and_zero = [quote ''eth'' None, quote ''btc'' (Some 0)]"


section \<open>Notions the properties are stated with\<close>

definition recognized :: "ustr set" where
  \<comment> \<open>the identifiers the keyboards send\<close>
  "recognized =
     {ascii ''price'', ascii ''refresh'', ascii ''mc'', ascii ''gains'', ascii ''charts'',
      ascii ''back'', ascii ''helpbtn''}"

fun contains :: "ustr \<Rightarrow> ustr \<Rightarrow> bool" where
  \<comment> \<open>\<open>p in t\<close> for strings: \<open>p\<close> occurs in \<open>t\<close> as a contiguous part\<close>
  "contains p [] = (p = [])"
| "contains p (x # xs) = (take (length p) (x # xs) = p \<or> contains p xs)"

definition by_change_desc :: "coin list \<Rightarrow> bool" where
  \<comment> \<open>non-increasing 24-hour percent change from first to last, an absent value counting as
      smaller than every present one (the order of \<open>option\<close>)\<close>
  "by_change_desc rows =
     sorted_wrt (\<lambda>a b. price_change_percentage_24h b \<le> price_change_percentage_24h a) rows"

definition is_failure :: "outcome \<Rightarrow> bool" where
  "is_failure out = (case out of Json _ \<Rightarrow> False | _ \<Rightarrow> True)"


section \<open>Auxiliary facts\<close>

lemmas fmt_eval =
  fmt_2f_def round_half_even_def group3_def Let_def digits.simps

lemmas run_eval =
  on_button_def on_button_try_def on_error_def fetch_markets_def get_cached_def set_cache_def
  fetched_at_def markets_def env_of_def no_cache_def COINS_def data_of_def strip_def
  isspace_def iterate_def

lemma floor_rat_numeral: "\<lfloor>(numeral a / numeral b :: rat)\<rfloor> = numeral a div numeral b"
  using floor_divide_of_int_eq[of "numeral a" "numeral b", where ?'a = rat] by simp

lemmas float_eval =
  to_double_def exponent_def pow2_def bit_length.simps floor_rat_numeral

lemma replicate_numeral: "replicate (numeral k) x = x # replicate (pred_numeral k) x"
  by (simp add: numeral_eq_Suc)

subsection \<open>Stripping\<close>

lemma dropWhile_id: "xs = [] \<or> \<not> P (hd xs) \<Longrightarrow> dropWhile P xs = xs"
  by (cases xs) auto

lemma hd_trim_right:
  assumes "rev (dropWhile P (rev t)) \<noteq> []"
  shows "hd (rev (dropWhile P (rev t))) = hd t"
proof -
  have "rev t = takeWhile P (rev t) @ dropWhile P (rev t)" by simp
  then have "t = rev (dropWhile P (rev t)) @ rev (takeWhile P (rev t))"
    by (metis rev_append rev_rev_ident)
  then show ?thesis using assms by (metis hd_append2)
qed

lemma strip_idem: "strip (strip s) = strip s"
proof -
  let ?t = "dropWhile isspace s"
  let ?u = "rev (dropWhile isspace (rev ?t))"
  have t: "?t = [] \<or> \<not> isspace (hd ?t)" by (metis hd_dropWhile)
  have "?u = [] \<or> \<not> isspace (hd ?u)"
  proof (cases "?u = []")
    case True
    then show ?thesis by simp
  next
    case False
    then have "hd ?u = hd ?t" by (rule hd_trim_right)
    moreover from False have "?t \<noteq> []" by (metis dropWhile.simps(1) rev.simps(1))
    ultimately show ?thesis using t by metis
  qed
  then have "dropWhile isspace ?u = ?u" by (rule dropWhile_id)
  then show ?thesis by (simp add: strip_def)
qed

text \<open>
  Stripping removes the white space in front and behind, and nothing else: a string that is
  empty or begins and ends with a character that is not white space comes back unchanged
  from any white-space padding.
\<close>

lemma strip_padded:
  assumes l: "\<forall>c\<in>set l. isspace c" and r: "\<forall>c\<in>set r. isspace c"
    and m: "m = [] \<or> (\<not> isspace (hd m) \<and> \<not> isspace (last m))"
  shows "strip (l @ m @ r) = m"
proof (cases "m = []")
  case True
  with l r have "\<forall>c\<in>set (l @ m @ r). isspace c" by auto
  then have d: "dropWhile isspace (l @ m @ r) = []" by (simp only: dropWhile_eq_Nil_conv)
  show ?thesis unfolding strip_def d using True by simp
next
  case False
  with m have h: "\<not> isspace (hd m)" and t: "\<not> isspace (last m)" by auto
  from False h have "\<not> isspace (hd (m @ r))" by simp
  then have "dropWhile isspace (m @ r) = m @ r" by (intro dropWhile_id) simp
  with l have a: "dropWhile isspace (l @ m @ r) = m @ r"
    by (simp add: dropWhile_append2)
  from False t have "\<not> isspace (hd (rev m))" by (simp add: hd_rev)
  then have "dropWhile isspace (rev m) = rev m" by (intro dropWhile_id) simp
  moreover from r have "\<And>c. c \<in> set (rev r) \<Longrightarrow> isspace c" by simp
  then have "dropWhile isspace (rev r @ rev m) = dropWhile isspace (rev m)"
    by (rule dropWhile_append2)
  ultimately have b: "dropWhile isspace (rev r @ rev m) = rev m" by simp
  show ?thesis unfolding strip_def a by (simp add: b)
qed

lemma data_of_strip: "data_of (Some (strip d)) = data_of (Some d)"
  by (simp add: data_of_def strip_idem)

lemma data_of_None: "data_of None = data_of (Some [])"
  by (simp add: data_of_def)

lemma data_of_padded_price: "data_of (Some (ascii ''  price '')) = ascii ''price''"
  by (simp add: data_of_def strip_def isspace_def ascii_def)

subsection \<open>Sorting\<close>

lemma sorted_reverse_mset: "mset (sorted_reverse k xs) = mset xs"
  by (simp add: sorted_reverse_def)

lemma sorted_reverse_desc: "sorted_wrt (\<lambda>a b. k b \<le> k a) (sorted_reverse k xs)"
proof -
  have "sorted (map k (sort_key k (rev xs)))" by simp
  then have "sorted_wrt (\<lambda>a b. k a \<le> k b) (sort_key k (rev xs))"
    by (simp add: sorted_map)
  then show ?thesis
    by (simp add: sorted_reverse_def sorted_wrt_rev)
qed

text \<open>
  Apart from the value zero, the gains view is in order: when every present percent change
  is non-zero and above the key \<open>-999\<close> of the absent ones, the rows are a rearrangement of
  the dataset in non-increasing order of the change, the rows without a value last.
\<close>

lemma gains_rows_ordered:
  assumes "\<forall>r\<in>set rows. \<forall>p. price_change_percentage_24h r = Some p \<longrightarrow> p \<noteq> 0 \<and> - 999 < p"
  shows "mset (gains_rows rows) = mset rows \<and> by_change_desc (gains_rows rows)"
proof -
  have m: "mset (gains_rows rows) = mset rows"
    by (simp add: gains_rows_def sorted_reverse_mset)
  let ?k = "\<lambda>x. or_else (price_change_percentage_24h x) (- 999)"
  have imp: "price_change_percentage_24h b \<le> price_change_percentage_24h a"
    if "a \<in> set rows" "b \<in> set rows" "?k b \<le> ?k a" for a b
    using that assms
    by (cases "price_change_percentage_24h a"; cases "price_change_percentage_24h b")
       (fastforce simp: or_else_def split: if_splits)+
  have set: "set (gains_rows rows) = set rows"
    using m by (rule mset_eq_setD)
  have "sorted_wrt (\<lambda>a b. ?k b \<le> ?k a) (gains_rows rows)"
    unfolding gains_rows_def by (rule sorted_reverse_desc)
  then have "by_change_desc (gains_rows rows)"
    unfolding by_change_desc_def
    by (rule sorted_wrt_mono_rel[rotated]) (use imp set in auto)
  with m show ?thesis by blast
qed

subsection \<open>Fetching and dispatching\<close>

lemma ids_param:
  "str_join (ascii '','') (map fst COINS) = ascii ''bitcoin,ethereum,binancecoin,solana,cardano''"
  by (simp add: COINS_def ascii_def)

lemma hit_keeps:
  "truthy (get_cached (clock_get e) s markets 60) \<Longrightarrow>
     fetch_markets e s ids = (Inr (the (get_cached (clock_get e) s markets 60)), s, [])"
  by (simp add: fetch_markets_def)

text \<open>
  A non-empty list stored by one call is served by a later call that reads the clock less
  than 60 seconds after the store, without a request.
\<close>

lemma cache_hit_nonempty:
  assumes "rows \<noteq> []" and "upstream e1 (str_join (ascii '','') ids) = Json (Rows rows)"
    and "\<not> truthy (get_cached (clock_get e1) s markets 60)"
    and "clock_get e2 - clock_set e1 < 60"
  shows "fetch_markets e2 (fst (snd (fetch_markets e1 s ids))) ids' =
           (Inr (Rows rows), fst (snd (fetch_markets e1 s ids)), [])"
  using assms
  by (simp add: fetch_markets_def get_cached_def set_cache_def fetched_at_def)

text \<open>
  When the request itself fails (timeout, HTTP error, or another exception of
  \<open>requests.get\<close>, \<open>raise_for_status\<close> or \<open>r.json()\<close>), the cache is left as it was and
  the call raises; the cache changes only after a request that returned a decoded body.
\<close>

lemma request_failure_keeps_cache:
  "(is_failure (upstream e (str_join (ascii '','') ids)) \<longrightarrow> fst (snd (fetch_markets e s ids)) = s)
   \<and> (is_failure (upstream e (str_join (ascii '','') ids)) \<and>
        \<not> truthy (get_cached (clock_get e) s markets 60) \<longrightarrow>
        isl (fst (fetch_markets e s ids)))
   \<and> (fst (snd (fetch_markets e s ids)) \<noteq> s \<longrightarrow>
        \<not> truthy (get_cached (clock_get e) s markets 60) \<and>
        (\<exists>data. upstream e (str_join (ascii '','') ids) = Json data))"
  by (auto simp: fetch_markets_def is_failure_def Let_def split: outcome.splits payload.splits)

lemma try_refresh:
  "on_button_try e s (data_of (Some (ascii ''refresh''))) =
   on_button_try e s (data_of (Some (ascii ''price'')))"
  by (simp add: on_button_try_def data_of_def strip_def isspace_def ascii_def)

lemma try_unknown:
  "data \<notin> recognized \<Longrightarrow>
     on_button_try e s data = (Inr (Edit (ascii ''Unknown command: '' @ data) None main_kb), s, [])"
  by (simp add: on_button_try_def recognized_def)

lemma try_price:
  "fetch_markets e s (map fst COINS) = (Inr (Rows rows), s', reqs) \<Longrightarrow>
     on_button_try e s (ascii ''price'') =
       (Inr (Edit ([128176] @ ascii '' *Live Prices (USD)*'' @ [10, 10] @ table (str_upper e) rows)
                  (Some Markdown) main_kb), s', reqs)"
  by (simp add: on_button_try_def iterate_def)

lemma on_button_effects:
  "on_button_try e s (data_of qd) = (r, s', reqs) \<Longrightarrow>
     store (on_button e s qd) = (if transport e 0 Answer = None then s' else s) \<and>
     requests (on_button e s qd) = (if transport e 0 Answer = None then reqs else [])"
  by (auto simp: on_button_def on_error_def Let_def split: option.splits sum.splits)

lemma on_button_calls:
  "on_button_try e s (data_of qd) = (Inr ed, s', reqs) \<Longrightarrow> transport e 0 Answer = None \<Longrightarrow>
     take 2 (calls (on_button e s qd)) = [Answer, ed]"
  by (auto simp: on_button_def on_error_def Let_def split: option.splits)


section \<open>Properties\<close>

subsection \<open>C1: order of the gains view\<close>

text \<open>
  C1 at a percent change of exactly 0. The gains view sorts by the key \<open>change or -999\<close>,
  and zero is falsy, so a coin that did not move is keyed like a coin without a value. For
  the dataset \<open>btc\<close> (0), \<open>eth\<close> (-5) the view shows \<open>eth\<close> at -5.00% above \<open>btc\<close> at
  0.00%, which is not non-increasing; for the dataset \<open>eth\<close> (no value), \<open>btc\<close> (0) it
  keeps the coin without a value above the coin with the value 0.
\<close>

theorem zero_change_misordered:
  "gains_rows zero_and_loss = [quote ''eth'' (Some (- 5)), quote ''btc'' (Some 0)]
   \<and> \<not> by_change_desc (gains_rows zero_and_loss)
   \<and> calls (on_button (env_of 0 1 (Json (Rows zero_and_loss))) no_cache (Some (ascii ''gains''))) =
       [Answer,
        Edit ([128200] @ ascii '' *24h Top Movers*'' @ [10, 10] @
              [96] @ ascii ''ETH    '' @ [128315] @ ascii ''5.00%'' @ [96, 10, 96] @
              ascii ''BTC    '' @ [128314] @ ascii ''0.00%'' @ [96])
             (Some Markdown) main_kb]
   \<and> gains_rows absent_and_zero = [quote ''eth'' None, quote ''btc'' (Some 0)]
   \<and> \<not> by_change_desc (gains_rows absent_and_zero)"
proof -
  have a: "gains_rows zero_and_loss = [quote ''eth'' (Some (- 5)), quote ''btc'' (Some 0)]"
    by (simp add: gains_rows_def sorted_reverse_def zero_and_loss_def quote_def or_else_def)
  have b: "\<not> by_change_desc (gains_rows zero_and_loss)"
    unfolding a by (simp add: by_change_desc_def quote_def)
  have c: "calls (on_button (env_of 0 1 (Json (Rows zero_and_loss))) no_cache (Some (ascii ''gains''))) =
       [Answer,
        Edit ([128200] @ ascii '' *24h Top Movers*'' @ [10, 10] @
              [96] @ ascii ''ETH    '' @ [128315] @ ascii ''5.00%'' @ [96, 10, 96] @
              ascii ''BTC    '' @ [128314] @ ascii ''0.00%'' @ [96])
             (Some Markdown) main_kb]"
    by (simp add: run_eval a gains_line_def arrow_def fmt_eval ljust_def ascii_upper_def
        quote_def ascii_def)
  have d: "gains_rows absent_and_zero = [quote ''eth'' None, quote ''btc'' (Some 0)]"
    by (simp add: gains_rows_def sorted_reverse_def absent_and_zero_def quote_def or_else_def)
  have e: "\<not> by_change_desc (gains_rows absent_and_zero)"
    unfolding d by (simp add: by_change_desc_def quote_def)
  from a b c d e show ?thesis by blast
qed


subsection \<open>C2: cache hit within the time-to-live\<close>

text \<open>
  C2 at the empty payload. A first call at time 100 fetches the empty list and stores it; at
  time 130 the entry is fresh (\<open>get_cached\<close> returns it), but \<open>if cached:\<close> takes the
  empty list for a miss, and the second call sends a new request upstream.
\<close>

theorem empty_payload_refetched:
  "fetch_markets (env_of 100 100 (Json (Rows []))) no_cache (map fst COINS) =
     (Inr (Rows []), set_cache 100 no_cache markets (Rows []),
      [ascii ''bitcoin,ethereum,binancecoin,solana,cardano''])
   \<and> get_cached 130 (set_cache 100 no_cache markets (Rows [])) markets 60 = Some (Rows [])
   \<and> snd (snd (fetch_markets (env_of 130 130 (Json (Rows []))) (set_cache 100 no_cache markets (Rows []))
                 (map fst COINS))) =
       [ascii ''bitcoin,ethereum,binancecoin,solana,cardano'']"
  by (simp add: fetch_markets_def ids_param get_cached_def set_cache_def fetched_at_def
      env_of_def no_cache_def)


subsection \<open>C3: classification of fetch failures\<close>





subsection \<open>C4: contract of the cache lookup\<close>

text \<open>
  C4. For every key and time-to-live, \<open>get_cached\<close> returns the stored payload if the key
  has an entry and \<open>now - fetched_at < ttl\<close>, with strict inequality, and returns \<open>None\<close>
  otherwise: a stored entry whose age is at least \<open>ttl\<close> is answered like a missing one. The
  lookup reads the two dictionaries and returns a value only; it fetches nothing and changes
  nothing. The time an entry was fetched at is the clock reading of the \<open>set_cache\<close> that
  stored it.
\<close>

theorem get_cached_contract:
  "(cache s key = Some v \<and> now - fetched_at s key < ttl \<longrightarrow> get_cached now s key ttl = Some v)
   \<and> (cache s key = None \<or> \<not> now - fetched_at s key < ttl \<longrightarrow> get_cached now s key ttl = None)
   \<and> get_cached now (set_cache t s key v) key ttl = (if now - t < ttl then Some v else None)"
  by (auto simp: get_cached_def set_cache_def fetched_at_def split: option.splits)

theorem get_cached_contract_witness:
  "get_cached 130 (set_cache 100 no_cache markets (Rows sample_rows)) markets 60 = Some (Rows sample_rows)
   \<and> get_cached 160 (set_cache 100 no_cache markets (Rows sample_rows)) markets 60 = None
   \<and> get_cached 130 no_cache markets 60 = None"
  using get_cached_contract[of "set_cache 100 no_cache markets (Rows sample_rows)" markets
      "Rows sample_rows" 130 60 100]
    get_cached_contract[of "set_cache 100 no_cache markets (Rows sample_rows)" markets
      "Rows sample_rows" 160 60 100]
    get_cached_contract[of no_cache markets "Rows sample_rows" 130 60 100]
  by (simp add: set_cache_def fetched_at_def no_cache_def)


subsection \<open>C5: a failed fetch and the cache\<close>

text \<open>
  C5 at a response with status 200 whose body is the JSON number 5. \<open>set_cache\<close> runs
  before \<open>len(data)\<close>: the number is stored under "markets" with the time 1, then
  \<open>len\<close> raises a \<open>TypeError\<close>, which the last \<open>except\<close> clause raises again. The call
  fails and the cache is not what it was before. At time 30 the stored number is still
  fresh and truthy: the price view gets it from the cache without a request and fails on it.
\<close>

theorem unsized_body_cached_then_raises:
  "fetch_markets (env_of 0 1 (Json (Unsized (JInt 5)))) no_cache (map fst COINS) =
     (Inl (Reraised (ascii ''object of type '' @ [39] @ ascii ''int'' @ [39] @ ascii '' has no len()'')),
      set_cache 1 no_cache markets (Unsized (JInt 5)),
      [ascii ''bitcoin,ethereum,binancecoin,solana,cardano''])
   \<and> cache no_cache markets = None
   \<and> cache (set_cache 1 no_cache markets (Unsized (JInt 5))) markets = Some (Unsized (JInt 5))
   \<and> cache_time (set_cache 1 no_cache markets (Unsized (JInt 5))) markets = Some 1
   \<and> calls (on_button (env_of 30 30 Timeout) (set_cache 1 no_cache markets (Unsized (JInt 5)))
        (Some (ascii ''price''))) =
       [Answer,
        Edit ([9888, 65039] @ ascii '' '' @ [39] @ ascii ''int'' @ [39] @ ascii '' object is not iterable'')
             None main_kb]
   \<and> requests (on_button (env_of 30 30 Timeout) (set_cache 1 no_cache markets (Unsized (JInt 5)))
        (Some (ascii ''price''))) = []"
proof -
  have a: "fetch_markets (env_of 0 1 (Json (Unsized (JInt 5)))) no_cache (map fst COINS) =
     (Inl (Reraised (ascii ''object of type '' @ [39] @ ascii ''int'' @ [39] @ ascii '' has no len()'')),
      set_cache 1 no_cache markets (Unsized (JInt 5)),
      [ascii ''bitcoin,ethereum,binancecoin,solana,cardano''])"
    by (simp add: fetch_markets_def ids_param get_cached_def no_cache_def env_of_def len_error_def)
  have b: "cache no_cache markets = None" by (simp add: no_cache_def)
  have c: "cache (set_cache 1 no_cache markets (Unsized (JInt 5))) markets = Some (Unsized (JInt 5))"
      "cache_time (set_cache 1 no_cache markets (Unsized (JInt 5))) markets = Some 1"
    by (simp_all add: set_cache_def)
  have d: "calls (on_button (env_of 30 30 Timeout) (set_cache 1 no_cache markets (Unsized (JInt 5)))
        (Some (ascii ''price''))) =
       [Answer,
        Edit ([9888, 65039] @ ascii '' '' @ [39] @ ascii ''int'' @ [39] @ ascii '' object is not iterable'')
             None main_kb]"
    by (simp add: run_eval iter_error_def ascii_def)
  have e: "requests (on_button (env_of 30 30 Timeout) (set_cache 1 no_cache markets (Unsized (JInt 5)))
        (Some (ascii ''price''))) = []"
    by (simp add: run_eval iter_error_def ascii_def)
  from a b c d e show ?thesis by blast
qed


subsection \<open>C6: the unknown-command fallback\<close>

text \<open>
  C6, as the code has it. The handler compares the identifier after stripping surrounding
  white space. Every identifier leads to exactly one branch; when the stripped identifier is
  none of price, refresh, mc, gains, charts, back, helpbtn, the handler, once its
  acknowledgement went through, asks the transport to show "Unknown command: " followed by the
  stripped identifier with the home keyboard, and neither touches the cache nor sends a
  request.
\<close>

theorem unknown_identifier_fallback:
  assumes "strip d \<notin> recognized" and "transport e 0 Answer = None"
  shows "take 2 (calls (on_button e s (Some d))) =
           [Answer, Edit (ascii ''Unknown command: '' @ strip d) None main_kb]
         \<and> store (on_button e s (Some d)) = s \<and> requests (on_button e s (Some d)) = []"
proof -
  have d: "data_of (Some d) = strip d" by (simp add: data_of_def)
  have t: "on_button_try e s (data_of (Some d)) =
      (Inr (Edit (ascii ''Unknown command: '' @ strip d) None main_kb), s, [])"
    unfolding d using assms(1) by (rule try_unknown)
  show ?thesis
    using on_button_calls[OF t assms(2)] on_button_effects[OF t] assms(2) by simp
qed

theorem unknown_identifier_fallback_witness:
  "calls (on_button (env_of 0 0 Timeout) no_cache (Some (ascii '' xyz ''))) =
      [Answer, Edit (ascii ''Unknown command: xyz'') None main_kb]"
proof -
  have s: "strip (ascii '' xyz '') = ascii ''xyz''" by (simp add: strip_def isspace_def ascii_def)
  have n: "strip (ascii '' xyz '') \<notin> recognized" unfolding s by (simp add: recognized_def ascii_def)
  have t: "transport (env_of 0 0 Timeout) 0 Answer = None" by (simp add: env_of_def)
  have l: "length (calls (on_button (env_of 0 0 Timeout) no_cache (Some (ascii '' xyz '')))) = 2"
    by (simp add: run_eval ascii_def recognized_def)
  show ?thesis using unknown_identifier_fallback[OF n t, of no_cache] l
    by (simp add: ascii_def strip_def isspace_def)
qed

text \<open>
  The identifier \<open>" price"\<close>, with a leading space, is not one of the seven identifiers, yet
  the handler answers it with the price view (here of an empty dataset), which does not
  contain "Unknown command: ".
\<close>

theorem padded_identifier_dispatched:
  "ascii '' price'' \<notin> recognized
   \<and> calls (on_button (env_of 0 0 (Json (Rows []))) no_cache (Some (ascii '' price''))) =
       [Answer,
        Edit ([128176] @ ascii '' *Live Prices (USD)*'' @ [10, 10] @
              [96] @ ascii ''COIN   PRICE        24h     MCAP'' @ [96]) (Some Markdown) main_kb]
   \<and> \<not> contains (ascii ''Unknown command: '')
         ([128176] @ ascii '' *Live Prices (USD)*'' @ [10, 10] @
          [96] @ ascii ''COIN   PRICE        24h     MCAP'' @ [96])"
proof -
  have a: "ascii '' price'' \<notin> recognized" by (simp add: recognized_def ascii_def)
  have b: "calls (on_button (env_of 0 0 (Json (Rows []))) no_cache (Some (ascii '' price''))) =
       [Answer,
        Edit ([128176] @ ascii '' *Live Prices (USD)*'' @ [10, 10] @
              [96] @ ascii ''COIN   PRICE        24h     MCAP'' @ [96]) (Some Markdown) main_kb]"
    by (simp add: run_eval table_def ascii_def)
  have c: "\<not> contains (ascii ''Unknown command: '')
         ([128176] @ ascii '' *Live Prices (USD)*'' @ [10, 10] @
          [96] @ ascii ''COIN   PRICE        24h     MCAP'' @ [96])"
    by (simp add: ascii_def)
  from a b c show ?thesis by blast
qed


subsection \<open>C7: the money formatter\<close>

text \<open>
  C7. \<open>money(999)\<close> is "$999.00", \<open>money(1500)\<close> is "$1.50K", \<open>money(2500000)\<close> is
  "$2.50M", \<open>money(3200000000)\<close> is "$3.20B", and \<open>money(None)\<close> is the dash. The
  thresholds are tested from the top: from \<open>10^9\<close> on the value is shown in billions, from
  \<open>10^6\<close> on in millions, from \<open>10^3\<close> on in thousands, each boundary included, and below
  that in full with thousands separators, always with two decimals. The quotient is the
  floating-point one, so \<open>money(1035)\<close> is "$1.03K" (1035/1000 as a float lies just below
  1.035) and \<open>money(1015000000)\<close> is "$1.01B".
\<close>

theorem money_thresholds:
  "money None = [8212]
   \<and> money (Some 999) = ascii ''$999.00''
   \<and> money (Some 1500) = ascii ''$1.50K''
   \<and> money (Some 2500000) = ascii ''$2.50M''
   \<and> money (Some 3200000000) = ascii ''$3.20B''
   \<and> money (Some 1000) = ascii ''$1.00K''
   \<and> money (Some 1000000) = ascii ''$1.00M''
   \<and> money (Some 1000000000) = ascii ''$1.00B''
   \<and> money (Some 1035) = ascii ''$1.03K''
   \<and> money (Some 1015000000) = ascii ''$1.01B''
   \<and> (1000000000 \<le> n \<longrightarrow>
        money (Some n) = ascii ''$'' @ fmt_2f False (to_double (n / 1000000000)) @ ascii ''B'')
   \<and> (1000000 \<le> n \<and> n < 1000000000 \<longrightarrow>
        money (Some n) = ascii ''$'' @ fmt_2f False (to_double (n / 1000000)) @ ascii ''M'')
   \<and> (1000 \<le> n \<and> n < 1000000 \<longrightarrow>
        money (Some n) = ascii ''$'' @ fmt_2f False (to_double (n / 1000)) @ ascii ''K'')
   \<and> (n < 1000 \<longrightarrow> money (Some n) = ascii ''$'' @ fmt_2f True n)"
proof -
  have a: "money None = [8212]" by (simp add: money_def)
  have b: "money (Some 999) = ascii ''$999.00''"
    by (simp add: money_def fmt_eval ascii_def)
  have c: "money (Some 1500) = ascii ''$1.50K''"
    by (simp add: money_def float_eval fmt_eval ascii_def)
  have d: "money (Some 2500000) = ascii ''$2.50M''"
    by (simp add: money_def float_eval fmt_eval ascii_def)
  have e: "money (Some 3200000000) = ascii ''$3.20B''"
    by (simp add: money_def float_eval fmt_eval ascii_def)
  have f: "money (Some 1000) = ascii ''$1.00K''"
    by (simp add: money_def float_eval fmt_eval ascii_def)
  have g: "money (Some 1000000) = ascii ''$1.00M''"
    by (simp add: money_def float_eval fmt_eval ascii_def)
  have h: "money (Some 1000000000) = ascii ''$1.00B''"
    by (simp add: money_def float_eval fmt_eval ascii_def)
  have h1: "money (Some 1035) = ascii ''$1.03K''"
    by (simp add: money_def float_eval fmt_eval ascii_def)
  have h2: "money (Some 1015000000) = ascii ''$1.01B''"
    by (simp add: money_def float_eval fmt_eval ascii_def)
  have i: "1000000000 \<le> n \<longrightarrow>
      money (Some n) = ascii ''$'' @ fmt_2f False (to_double (n / 1000000000)) @ ascii ''B''"
    by (simp add: money_def)
  have j: "1000000 \<le> n \<and> n < 1000000000 \<longrightarrow>
      money (Some n) = ascii ''$'' @ fmt_2f False (to_double (n / 1000000)) @ ascii ''M''"
    by (simp add: money_def)
  have k: "1000 \<le> n \<and> n < 1000000 \<longrightarrow>
      money (Some n) = ascii ''$'' @ fmt_2f False (to_double (n / 1000)) @ ascii ''K''"
    by (simp add: money_def)
  have l: "n < 1000 \<longrightarrow> money (Some n) = ascii ''$'' @ fmt_2f True n"
    by (simp add: money_def)
  from a b c d e f g h h1 h2 i j k l show ?thesis by blast
qed

theorem money_thresholds_witness:
  "money (Some 4321) = ascii ''$4.32K''
   \<and> money (Some 999999) = ascii ''$1000.00K''
   \<and> money (Some 12345678) = ascii ''$12.35M''
   \<and> money (Some 45600000000) = ascii ''$45.60B''
   \<and> money (Some (1975 / 2)) = ascii ''$987.50''"
  using money_thresholds[of 4321] money_thresholds[of 999999] money_thresholds[of 12345678]
    money_thresholds[of 45600000000] money_thresholds[of "1975 / 2"]
  by (simp add: float_eval fmt_eval ascii_def)


subsection \<open>C8: the direction glyph\<close>

text \<open>
  C8. The glyph follows the sign, zero counting as non-negative: for every percent value
  \<open>p \<ge> 0\<close> the formatter renders the upward glyph, then \<open>|p|\<close> with two decimals and a
  percent sign; for every \<open>p < 0\<close> the downward glyph with the absolute value; an absent
  value renders the dash. So \<open>0\<close> gives the upward glyph with "0.00%", \<open>5.23\<close> the upward
  glyph with "5.23%", and \<open>-3.10\<close> the downward glyph with "3.10%".
\<close>

theorem arrow_by_sign:
  "arrow None = [8212]
   \<and> (0 \<le> p \<longrightarrow> arrow (Some p) = [128314] @ fmt_2f False \<bar>p\<bar> @ ascii ''%'')
   \<and> (p < 0 \<longrightarrow> arrow (Some p) = [128315] @ fmt_2f False \<bar>p\<bar> @ ascii ''%'')
   \<and> arrow (Some 0) = [128314] @ ascii ''0.00%''
   \<and> arrow (Some (523 / 100)) = [128314] @ ascii ''5.23%''
   \<and> arrow (Some (- 310 / 100)) = [128315] @ ascii ''3.10%''"
proof -
  have a: "arrow None = [8212]" by (simp add: arrow_def)
  have b: "0 \<le> p \<longrightarrow> arrow (Some p) = [128314] @ fmt_2f False \<bar>p\<bar> @ ascii ''%''"
    by (simp add: arrow_def)
  have c: "p < 0 \<longrightarrow> arrow (Some p) = [128315] @ fmt_2f False \<bar>p\<bar> @ ascii ''%''"
    by (simp add: arrow_def)
  have d: "arrow (Some 0) = [128314] @ ascii ''0.00%''"
    by (simp add: arrow_def fmt_eval ascii_def)
  have e: "arrow (Some (523 / 100)) = [128314] @ ascii ''5.23%''"
    by (simp add: arrow_def fmt_eval ascii_def)
  have f: "arrow (Some (- 310 / 100)) = [128315] @ ascii ''3.10%''"
    by (simp add: arrow_def fmt_eval ascii_def)
  from a b c d e f show ?thesis by blast
qed

theorem arrow_by_sign_witness:
  "arrow (Some (7 / 4)) = [128314] @ ascii ''1.75%''
   \<and> arrow (Some (- 12)) = [128315] @ ascii ''12.00%''"
  using arrow_by_sign[of "7 / 4"] arrow_by_sign[of "- 12"]
  by (simp add: fmt_eval floor_rat_numeral ascii_def)


subsection \<open>C9: refresh is price\<close>

text \<open>
  C9. For every cache, clock, upstream outcome and transport, the handler does the same for
  the identifier "refresh" as for "price": the same transport calls with the same text and
  keyboard, the same exception if one leaves the handler, the same cache afterwards and the
  same upstream requests. In particular "refresh" honours the cache: when the cache answers,
  no request is sent and the cache stays as it was.
\<close>

theorem refresh_is_price:
  "on_button e s (Some (ascii ''refresh'')) = on_button e s (Some (ascii ''price''))
   \<and> (truthy (get_cached (clock_get e) s markets 60) \<longrightarrow>
        requests (on_button e s (Some (ascii ''refresh''))) = [] \<and>
        store (on_button e s (Some (ascii ''refresh''))) = s)"
proof
  show "on_button e s (Some (ascii ''refresh'')) = on_button e s (Some (ascii ''price''))"
    unfolding on_button_def Let_def try_refresh by simp
  show "truthy (get_cached (clock_get e) s markets 60) \<longrightarrow>
        requests (on_button e s (Some (ascii ''refresh''))) = [] \<and>
        store (on_button e s (Some (ascii ''refresh''))) = s"
  proof
    assume hit: "truthy (get_cached (clock_get e) s markets 60)"
    have d: "data_of (Some (ascii ''refresh'')) = ascii ''refresh''"
      by (simp add: data_of_def strip_def isspace_def ascii_def)
    have "\<exists>r. on_button_try e s (ascii ''refresh'') = (r, s, [])"
      by (cases "iterate (the (get_cached (clock_get e) s markets 60))")
         (simp_all add: on_button_try_def hit_keeps[OF hit])
    then obtain r where "on_button_try e s (data_of (Some (ascii ''refresh''))) = (r, s, [])"
      unfolding d by blast
    from on_button_effects[OF this]
    show "requests (on_button e s (Some (ascii ''refresh''))) = [] \<and>
        store (on_button e s (Some (ascii ''refresh''))) = s" by simp
  qed
qed

theorem refresh_is_price_witness:
  "requests (on_button (env_of 130 130 Timeout) (set_cache 100 no_cache markets (Rows sample_movers))
       (Some (ascii ''refresh''))) = []
   \<and> store (on_button (env_of 130 130 Timeout) (set_cache 100 no_cache markets (Rows sample_movers))
       (Some (ascii ''refresh''))) = set_cache 100 no_cache markets (Rows sample_movers)
   \<and> on_button (env_of 130 130 Timeout) (set_cache 100 no_cache markets (Rows sample_movers))
       (Some (ascii ''refresh''))
     = on_button (env_of 130 130 Timeout) (set_cache 100 no_cache markets (Rows sample_movers))
       (Some (ascii ''price''))"
proof -
  have hit: "truthy (get_cached (clock_get (env_of 130 130 Timeout))
       (set_cache 100 no_cache markets (Rows sample_movers)) markets 60)"
    by (simp add: get_cached_def fetched_at_def set_cache_def env_of_def sample_movers_def)
  note c = refresh_is_price[of "env_of 130 130 Timeout"
      "set_cache 100 no_cache markets (Rows sample_movers)"]
  from c[THEN conjunct2, rule_format, OF hit] c[THEN conjunct1] show ?thesis by blast
qed


subsection \<open>C10: white space around the identifier\<close>

text \<open>
  C10. The handler does the same for a callback data string as for that string with leading
  and trailing white space removed, and what is removed is exactly the white space in front
  and behind: an identifier padded with white space on either side is handled like the
  identifier itself. So "  price " selects the price view: once the acknowledgement went
  through, the handler asks the transport to show the price table of the fetched rows with
  the home keyboard. Missing callback data is treated as the empty string, and the empty
  string falls through to the unknown-command fallback.
\<close>

theorem dispatch_ignores_whitespace:
  "on_button e s (Some d) = on_button e s (Some (strip d))
   \<and> ((\<forall>c\<in>set l. isspace c) \<and> (\<forall>c\<in>set r. isspace c) \<and>
        (m = [] \<or> (\<not> isspace (hd m) \<and> \<not> isspace (last m))) \<longrightarrow>
        data_of (Some (l @ m @ r)) = m \<and> on_button e s (Some (l @ m @ r)) = on_button e s (Some m))
   \<and> on_button e s (Some (ascii ''  price '')) = on_button e s (Some (ascii ''price''))
   \<and> (transport e 0 Answer = None \<and>
        fetch_markets e s (map fst COINS) = (Inr (Rows rows), s', reqs) \<longrightarrow>
        take 2 (calls (on_button e s (Some (ascii ''  price '')))) =
          [Answer,
           Edit ([128176] @ ascii '' *Live Prices (USD)*'' @ [10, 10] @ table (str_upper e) rows)
                (Some Markdown) main_kb]
        \<and> store (on_button e s (Some (ascii ''  price ''))) = s'
        \<and> requests (on_button e s (Some (ascii ''  price ''))) = reqs)
   \<and> on_button e s None = on_button e s (Some [])
   \<and> (transport e 0 Answer = None \<longrightarrow>
        take 2 (calls (on_button e s None)) =
          [Answer, Edit (ascii ''Unknown command: '') None main_kb])"
proof -
  have a: "on_button e s (Some d) = on_button e s (Some (strip d))"
    unfolding on_button_def data_of_strip by simp
  have b: "(\<forall>c\<in>set l. isspace c) \<and> (\<forall>c\<in>set r. isspace c) \<and>
        (m = [] \<or> (\<not> isspace (hd m) \<and> \<not> isspace (last m))) \<longrightarrow>
        data_of (Some (l @ m @ r)) = m \<and> on_button e s (Some (l @ m @ r)) = on_button e s (Some m)"
  proof
    assume h: "(\<forall>c\<in>set l. isspace c) \<and> (\<forall>c\<in>set r. isspace c) \<and>
        (m = [] \<or> (\<not> isspace (hd m) \<and> \<not> isspace (last m)))"
    then have p: "strip (l @ m @ r) = m" by (intro strip_padded) auto
    from h have q: "strip m = m" using strip_padded[of "[]" "[]" m] by simp
    have eq: "data_of (Some (l @ m @ r)) = data_of (Some m)" by (simp add: data_of_def p q)
    have "on_button e s (Some (l @ m @ r)) = on_button e s (Some m)"
      unfolding on_button_def eq by simp
    moreover have "data_of (Some (l @ m @ r)) = m" by (simp add: data_of_def p)
    ultimately show "data_of (Some (l @ m @ r)) = m \<and>
        on_button e s (Some (l @ m @ r)) = on_button e s (Some m)" by blast
  qed
  have p: "data_of (Some (ascii ''  price '')) = data_of (Some (ascii ''price''))"
    by (simp add: data_of_def strip_def isspace_def ascii_def)
  have c: "on_button e s (Some (ascii ''  price '')) = on_button e s (Some (ascii ''price''))"
    unfolding on_button_def p by simp
  have d: "transport e 0 Answer = None \<and>
        fetch_markets e s (map fst COINS) = (Inr (Rows rows), s', reqs) \<longrightarrow>
        take 2 (calls (on_button e s (Some (ascii ''  price '')))) =
          [Answer,
           Edit ([128176] @ ascii '' *Live Prices (USD)*'' @ [10, 10] @ table (str_upper e) rows)
                (Some Markdown) main_kb]
        \<and> store (on_button e s (Some (ascii ''  price ''))) = s'
        \<and> requests (on_button e s (Some (ascii ''  price ''))) = reqs"
  proof
    assume h: "transport e 0 Answer = None \<and>
        fetch_markets e s (map fst COINS) = (Inr (Rows rows), s', reqs)"
    then have t: "on_button_try e s (data_of (Some (ascii ''  price ''))) =
       (Inr (Edit ([128176] @ ascii '' *Live Prices (USD)*'' @ [10, 10] @ table (str_upper e) rows)
                  (Some Markdown) main_kb), s', reqs)"
      unfolding data_of_padded_price by (intro try_price) simp
    from h on_button_calls[OF t] on_button_effects[OF t]
    show "take 2 (calls (on_button e s (Some (ascii ''  price '')))) =
          [Answer,
           Edit ([128176] @ ascii '' *Live Prices (USD)*'' @ [10, 10] @ table (str_upper e) rows)
                (Some Markdown) main_kb]
        \<and> store (on_button e s (Some (ascii ''  price ''))) = s'
        \<and> requests (on_button e s (Some (ascii ''  price ''))) = reqs"
      by simp
  qed
  have f: "on_button e s None = on_button e s (Some [])"
    unfolding on_button_def data_of_None by simp
  have n: "data_of None = []" by (simp add: data_of_def strip_def)
  have "[] \<notin> recognized" by (simp add: recognized_def ascii_def)
  then have t: "on_button_try e s (data_of None) =
      (Inr (Edit (ascii ''Unknown command: '' @ []) None main_kb), s, [])"
    unfolding n by (rule try_unknown)
  have g: "transport e 0 Answer = None \<longrightarrow>
        take 2 (calls (on_button e s None)) =
          [Answer, Edit (ascii ''Unknown command: '') None main_kb]"
    using on_button_calls[OF t] by simp
  from a b c d f g show ?thesis by blast
qed

theorem dispatch_ignores_whitespace_witness:
  "calls (on_button (env_of 0 1 (Json (Rows [quote ''btc'' (Some (3 / 2))]))) no_cache
       (Some (ascii ''  price ''))) =
     [Answer,
      Edit ([128176] @ ascii '' *Live Prices (USD)*'' @ [10, 10] @
            [96] @ ascii ''COIN   PRICE        24h     MCAP'' @ [96, 10] @
            [96] @ ascii ''BTC  $      1.00    '' @ [128314] @ ascii ''1.50%         '' @ [8212, 96])
           (Some Markdown) main_kb]
   \<and> data_of (Some ([32, 9] @ ascii ''mc'' @ [10])) = ascii ''mc''
   \<and> calls (on_button (env_of 0 0 Timeout) no_cache None) =
       [Answer, Edit (ascii ''Unknown command: '') None main_kb]"
proof -
  let ?e = "env_of 0 1 (Json (Rows [quote ''btc'' (Some (3 / 2))]))"
  have t: "transport (env_of x y out) 0 Answer = None" for x y out by (simp add: env_of_def)
  have f: "fetch_markets ?e no_cache (map fst COINS) =
      (Inr (Rows [quote ''btc'' (Some (3 / 2))]),
       set_cache 1 no_cache markets (Rows [quote ''btc'' (Some (3 / 2))]),
       [str_join (ascii '','') (map fst COINS)])"
    by (simp add: fetch_markets_def get_cached_def no_cache_def env_of_def)
  have tb: "table (str_upper ?e) [quote ''btc'' (Some (3 / 2))] =
      [96] @ ascii ''COIN   PRICE        24h     MCAP'' @ [96, 10] @
      [96] @ ascii ''BTC  $      1.00    '' @ [128314] @ ascii ''1.50%         '' @ [8212, 96]"
    by (simp add: table_def table_row_def env_of_def ascii_upper_def quote_def arrow_def money_def
        fmt_eval ljust_def rjust_def ascii_def replicate_numeral)
  have l1: "length (calls (on_button ?e no_cache (Some (ascii ''  price '')))) = 2"
    by (simp add: run_eval ascii_def)
  have l2: "length (calls (on_button (env_of 0 0 Timeout) no_cache None)) = 2"
    by (simp add: run_eval ascii_def recognized_def)
  have sp: "(\<forall>c\<in>set [32, 9]. isspace c) \<and> (\<forall>c\<in>set [10]. isspace c) \<and>
      (ascii ''mc'' = [] \<or> (\<not> isspace (hd (ascii ''mc'')) \<and> \<not> isspace (last (ascii ''mc''))))"
    by (simp add: isspace_def ascii_def)
  note c1 = dispatch_ignores_whitespace[of ?e no_cache "[]" "[32, 9]" "[10]" "ascii ''mc''"
      "[quote ''btc'' (Some (3 / 2))]" "set_cache 1 no_cache markets (Rows [quote ''btc'' (Some (3 / 2))])"
      "[str_join (ascii '','') (map fst COINS)]"]
  note c2 = dispatch_ignores_whitespace[of "env_of 0 0 Timeout" no_cache "[]" "[]" "[]" "[]"]
  have a: "take 2 (calls (on_button ?e no_cache (Some (ascii ''  price '')))) =
      [Answer,
       Edit ([128176] @ ascii '' *Live Prices (USD)*'' @ [10, 10] @
             table (str_upper ?e) [quote ''btc'' (Some (3 / 2))]) (Some Markdown) main_kb]"
    using c1 t f by blast
  have b: "data_of (Some ([32, 9] @ ascii ''mc'' @ [10])) = ascii ''mc''"
    using c1 sp by blast
  have c: "take 2 (calls (on_button (env_of 0 0 Timeout) no_cache None)) =
      [Answer, Edit (ascii ''Unknown command: '') None main_kb]"
    using c2 t by blast
  from a l1 have a': "calls (on_button ?e no_cache (Some (ascii ''  price ''))) =
      [Answer,
       Edit ([128176] @ ascii '' *Live Prices (USD)*'' @ [10, 10] @
             table (str_upper ?e) [quote ''btc'' (Some (3 / 2))]) (Some Markdown) main_kb]"
    by simp
  from c l2 have c': "calls (on_button (env_of 0 0 Timeout) no_cache None) =
      [Answer, Edit (ascii ''Unknown command: '') None main_kb]"
    by simp
  from a' b c' show ?thesis unfolding tb by simp
qed

end
